theory Spec2Isabelle
  imports
    Main
    "HOL-Library.Char_ord"
    "HOL-Library.List_Lexorder"
    "HOL-Library.Product_Lexorder"
    "HOL-Library.Option_ord"
    "HOL-Library.Multiset"
    "HOL-Library.Sublist"
begin

section \<open>Errors\<close>

text \<open>
  The exceptions of \<^verbatim>\<open>rayleigh.py\<close> as values. \<open>KeyError\<close> and \<open>ValueError\<close> carry their
  message, because \<open>SensorList.get_data\<close> inspects the message of a \<open>ValueError\<close>, and the
  three \<open>KeyError\<close>s the module raises itself differ in their message only. A failure of
  \<open>Client.request\<close> (a non-2xx status raised by \<open>raise_for_status\<close>, a connection failure, a
  body that is not JSON) is a \<open>request_failure\<close>. \<open>OutOfBoundsDatetime\<close> is the exception
  of \<open>pd.to_datetime\<close>.
\<close>

datatype request_failure = HTTPError nat | ConnectionError | JSONDecodeError

datatype py_error =
    IndexError
  | KeyError string
  | ValueError string
  | RequestError request_failure
  | OutOfBoundsDatetime

section \<open>Data model\<close>

text \<open>
  A parsed JSON object (a Python \<open>dict\<close>) is the list of its items in iteration order.
  A JSON number is a value of a linearly ordered type \<open>'n\<close>; a cell of a record is a number
  or \<open>null\<close> (\<open>None\<close>). The response to a data request is
  \<open>{device_id: {sensor_id: [[ts, v, ...], ...]}}\<close>.
\<close>

type_synonym 'n cell = "'n option"
type_synonym 'n sensor_data = "'n cell list list"
type_synonym 'n raw_data = "(string \<times> (string \<times> 'n sensor_data) list) list"

text \<open>
  The parameter dictionary of a device or of a sensor: its \<open>"id"\<close> entry (the docstring of
  \<open>Device\<close> requires it) and the remaining entries.
\<close>

datatype params = Params (params_id: string) (params_rest: "(string \<times> string) list")

text \<open>
  \<open>Client.request(path, **params)\<close> is the transport. A client carries what the transport
  answers: to the path \<open>devices\<close> a list of device parameters, to a path \<open>devices/<id>\<close> an
  object \<open>{device_id: {sensor_id: sensor_params}}\<close>, and to a data path with the query
  parameters \<open>from\<close> and \<open>to\<close> the raw data. The endpoint and the credentials that
  \<open>request\<close> adds to every call are the same for all calls of a client and are left out.
\<close>

datatype 'n client = Client
  (client_id: string)
  (request_devices: "string \<Rightarrow> request_failure + params list")
  (request_sensors: "string \<Rightarrow> request_failure + (string \<times> (string \<times> params) list) list")
  (request_data: "string \<Rightarrow> (string \<times> int) list \<Rightarrow> request_failure + 'n raw_data")

datatype 'n device = Device (device_params: params) (device_client: "'n client")

datatype 'n sensor = Sensor (sensor_params: params) (sensor_device: "'n device")

definition Device_id :: "'n device \<Rightarrow> string" where
  "Device_id d = params_id (device_params d)"

definition Sensor_id :: "'n sensor \<Rightarrow> string" where
  "Sensor_id s = params_id (sensor_params s)"

section \<open>Catalog\<close>

text \<open>\<open>Client.devices\<close> (a cached property: one request per client).\<close>

definition Client_devices :: "'n client \<Rightarrow> py_error + 'n device list" where
  "Client_devices c =
     (case request_devices c ''devices'' of
        Inl e \<Rightarrow> Inl (RequestError e)
      | Inr devices \<Rightarrow> Inr (map (\<lambda>device. Device device c) devices))"

text \<open>
  \<open>not ids\<close> for an argument that is \<open>None\<close> or a list: true for \<open>None\<close> and for \<open>[]\<close>.
\<close>

definition py_not :: "string list option \<Rightarrow> bool" where
  "py_not ids = (case ids of None \<Rightarrow> True | Some l \<Rightarrow> l = [])"

definition ids_of :: "string list option \<Rightarrow> string list" where
  "ids_of ids = (case ids of None \<Rightarrow> [] | Some l \<Rightarrow> l)"

text \<open>\<open>Client.get_devices\<close>.\<close>

definition Client_get_devices :: "'n client \<Rightarrow> string list option \<Rightarrow> py_error + 'n device list" where
  "Client_get_devices c device_ids =
     (if py_not device_ids then Client_devices c
      else (case Client_devices c of
              Inl e \<Rightarrow> Inl e
            | Inr devices \<Rightarrow>
                Inr (filter (\<lambda>device. Device_id device \<in> set (ids_of device_ids)) devices)))"

text \<open>
  \<open>Client.get_device\<close>: the first element of \<open>get_devices([device_id])\<close>; an \<open>IndexError\<close>
  raised inside the \<open>try\<close> becomes \<open>KeyError("device not found")\<close>, any other exception
  passes.
\<close>

definition Client_get_device :: "'n client \<Rightarrow> string \<Rightarrow> py_error + 'n device" where
  "Client_get_device c i =
     (case Client_get_devices c (Some [i]) of
        Inl e \<Rightarrow> (if e = IndexError then Inl (KeyError ''device not found'') else Inl e)
      | Inr devices \<Rightarrow>
          (case devices of
             [] \<Rightarrow> Inl (KeyError ''device not found'')
           | d # _ \<Rightarrow> Inr d))"

text \<open>
  \<open>Device.sensors\<close> (a cached property): the request \<open>devices/<id>\<close>, then
  \<open>sensors[self.id].values()\<close>, which raises \<open>KeyError(self.id)\<close> when the device's own
  identifier is not a key of the answer.
\<close>

definition Device_sensors :: "'n device \<Rightarrow> py_error + 'n sensor list" where
  "Device_sensors d =
     (case request_sensors (device_client d) (''devices/'' @ Device_id d) of
        Inl e \<Rightarrow> Inl (RequestError e)
      | Inr sensors \<Rightarrow>
          (case map_of sensors (Device_id d) of
             None \<Rightarrow> Inl (KeyError (Device_id d))
           | Some inner \<Rightarrow> Inr (map (\<lambda>sensor. Sensor sensor d) (map snd inner))))"

text \<open>\<open>Device.get_sensors\<close>.\<close>

definition Device_get_sensors :: "'n device \<Rightarrow> string list option \<Rightarrow> py_error + 'n sensor list" where
  "Device_get_sensors d sensor_ids =
     (if py_not sensor_ids then Device_sensors d
      else (case Device_sensors d of
              Inl e \<Rightarrow> Inl e
            | Inr sensors \<Rightarrow>
                Inr (filter (\<lambda>sensor. Sensor_id sensor \<in> set (ids_of sensor_ids)) sensors)))"

text \<open>\<open>Device.get_sensor\<close>.\<close>

definition Device_get_sensor :: "'n device \<Rightarrow> string \<Rightarrow> py_error + 'n sensor" where
  "Device_get_sensor d i =
     (case Device_get_sensors d (Some [i]) of
        Inl e \<Rightarrow> (if e = IndexError then Inl (KeyError ''sensor not found'') else Inl e)
      | Inr sensors \<Rightarrow>
          (case sensors of
             [] \<Rightarrow> Inl (KeyError ''sensor not found'')
           | s # _ \<Rightarrow> Inr s))"

text \<open>
  \<open>chain(*(f(device) for device in self))\<close>: the star evaluates the generator from left to
  right before \<open>chain\<close> runs, so the first device whose call raises decides the outcome;
  otherwise the lists are concatenated in device order.
\<close>

fun chain_star :: "('a \<Rightarrow> py_error + 'b list) \<Rightarrow> 'a list \<Rightarrow> py_error + 'b list" where
  "chain_star f [] = Inr []"
| "chain_star f (x # xs) =
     (case f x of
        Inl e \<Rightarrow> Inl e
      | Inr ys \<Rightarrow> (case chain_star f xs of Inl e \<Rightarrow> Inl e | Inr zs \<Rightarrow> Inr (ys @ zs)))"

text \<open>\<open>DevicesList.get_sensors\<close>.\<close>

definition DevicesList_get_sensors ::
  "'n device list \<Rightarrow> string list option \<Rightarrow> py_error + 'n sensor list" where
  "DevicesList_get_sensors self sensor_ids =
     (if py_not sensor_ids then chain_star Device_sensors self
      else chain_star (\<lambda>device. Device_get_sensors device sensor_ids) self)"

section \<open>Strings\<close>

text \<open>\<open>str(i)\<close> for a natural number: its decimal digits.\<close>

definition digit_char :: "nat \<Rightarrow> char" where
  "digit_char n = ''0123456789'' ! n"

fun str_nat :: "nat \<Rightarrow> string" where
  "str_nat n =
     (if n < 10 then [digit_char n] else str_nat (n div 10) @ [digit_char (n mod 10)])"

declare str_nat.simps [simp del]

text \<open>\<open>sep.join(xs)\<close>.\<close>

fun join :: "string \<Rightarrow> string list \<Rightarrow> string" where
  "join sep [] = []"
| "join sep [x] = x"
| "join sep (x # y # ys) = x @ sep @ join sep (y # ys)"

section \<open>Time-series fetch\<close>

text \<open>
  \<open>to_query[k].append(v)\<close> on a \<open>defaultdict(list)\<close>: a new key goes to the end with the
  one-element list, an old key keeps its place and its list grows at the end.
\<close>

fun append_item ::
  "(string \<times> string list) list \<Rightarrow> string \<Rightarrow> string \<Rightarrow> (string \<times> string list) list" where
  "append_item [] k v = [(k, [v])]"
| "append_item ((k', vs) # rest) k v =
     (if k' = k then (k', vs @ [v]) # rest else (k', vs) # append_item rest k v)"

definition to_query :: "'n sensor list \<Rightarrow> (string \<times> string list) list" where
  "to_query self =
     foldl (\<lambda>q sensor. append_item q (Device_id (sensor_device sensor)) (Sensor_id sensor)) [] self"

definition query :: "'n sensor list \<Rightarrow> string" where
  "query self =
     join '','' (map (\<lambda>(device_id, sensor_ids). device_id @ '':('' @ join '','' sensor_ids @ '')'')
                    (to_query self))"

text \<open>The path of the data request, the f-string \<^verbatim>\<open>f"data/{query})"\<close>.\<close>

definition data_path :: "'n sensor list \<Rightarrow> string" where
  "data_path self = ''data/'' @ query self @ '')''"

text \<open>
  The first half of \<open>SensorList.get_data\<close>, up to the request. The conversion of a date to
  integer milliseconds, \<^verbatim>\<open>int(pd.to_datetime(d).timestamp() * 1000)\<close>, is the parameter
  \<open>to_ms\<close>; it raises on a value that is not a date. The two dates are converted first, then
  \<open>self[0]\<close> is read for the client, then the request is made. (The string \<open>sensor_ids\<close>
  joined in the first line of the method is never used.)
\<close>

definition fetch ::
  "('d \<Rightarrow> py_error + int) \<Rightarrow> 'n sensor list \<Rightarrow> 'd \<Rightarrow> 'd \<Rightarrow> py_error + 'n raw_data" where
  "fetch to_ms self from_date to_date =
     (case to_ms from_date of
        Inl e \<Rightarrow> Inl e
      | Inr from_ms \<Rightarrow>
          (case to_ms to_date of
             Inl e \<Rightarrow> Inl e
           | Inr to_ms' \<Rightarrow>
               (case self of
                  [] \<Rightarrow> Inl IndexError
                | s0 # _ \<Rightarrow>
                    (case request_data (device_client (sensor_device s0)) (data_path self)
                            [(''from'', from_ms), (''to'', to_ms')] of
                       Inl e \<Rightarrow> Inl (RequestError e)
                     | Inr data \<Rightarrow> Inr data))))"

section \<open>Reshaping\<close>

text \<open>The generator \<open>loop_through_sensors\<close>: the non-empty record lists, in response order.\<close>

definition loop_through_sensors :: "'n raw_data \<Rightarrow> (string \<times> string \<times> 'n sensor_data) list" where
  "loop_through_sensors data =
     concat (map (\<lambda>(device_id, device_data).
       concat (map (\<lambda>(sensor_id, sensor_data).
         if sensor_data \<noteq> [] then [(device_id, sensor_id, sensor_data)] else []) device_data)) data)"

text \<open>\<open>range(n)\<close> for an integer \<open>n\<close>: empty when \<open>n \<le> 0\<close>.\<close>

definition py_range :: "int \<Rightarrow> nat list" where
  "py_range n = [0..<nat n]"

text \<open>\<open>get_column_headers\<close>; \<open>sensor_data[0]\<close> raises \<open>IndexError\<close> on an empty list.\<close>

definition get_column_headers :: "string \<Rightarrow> 'n sensor_data \<Rightarrow> py_error + string list" where
  "get_column_headers sensor_id sensor_data =
     (case sensor_data of
        [] \<Rightarrow> Inl IndexError
      | r # _ \<Rightarrow>
          (let num_data_columns = int (length r) - 1 in
           if num_data_columns = 1 then Inr [''datetime'', sensor_id]
           else Inr (''datetime'' #
                     map (\<lambda>i. sensor_id @ ''_'' @ str_nat i) (py_range num_data_columns))))"

text \<open>
  The pandas operations the method calls. What pandas does to a number is a parameter:
  \<open>in_range t\<close> says that the number \<open>t\<close> of milliseconds is in the range of pandas
  timestamps, and \<open>stored col c\<close> is the cell \<open>c\<close> as pandas stores it in a column holding
  the cells \<open>col\<close> (pandas picks one type for the column, \<open>float64\<close> as soon as a cell is
  missing or not an integer, and a large integer is rounded there).
\<close>

record 'n pandas =
  in_range :: "'n \<Rightarrow> bool"
  stored :: "'n cell list \<Rightarrow> 'n cell \<Rightarrow> 'n cell"

text \<open>
  \<open>pd.DataFrame(rows, columns=cols)\<close> on a list of lists: the frame is as wide as the
  longest row, shorter rows are filled with missing values, a width other than
  \<open>len(cols)\<close> raises \<open>ValueError\<close>, and every column is stored in its type. The first
  column, \<open>datetime\<close> in every frame built here, is kept as it is: a number in the range of
  pandas timestamps is stored exactly, and a number outside it is refused when the column
  is converted.
\<close>

record 'n dataframe =
  df_columns :: "string list"
  df_rows :: "'n cell list list"

definition width :: "'a list list \<Rightarrow> nat" where
  "width rs = foldr max (map length rs) 0"

definition pad :: "nat \<Rightarrow> 'n cell list \<Rightarrow> 'n cell list" where
  "pad w r = r @ replicate (w - length r) None"

definition column :: "nat \<Rightarrow> 'a list list \<Rightarrow> 'a list" where
  "column j rows = map (\<lambda>r. r ! j) rows"

definition store :: "'n pandas \<Rightarrow> 'n cell list list \<Rightarrow> 'n cell list list" where
  "store pd rows =
     map (\<lambda>r. map (\<lambda>j. if j = 0 then r ! j else stored pd (column j rows) (r ! j))
                   [0..<length r]) rows"

definition DataFrame :: "'n pandas \<Rightarrow> 'n sensor_data \<Rightarrow> string list \<Rightarrow> py_error + 'n dataframe" where
  "DataFrame pd data cols =
     (if data = [] then Inr \<lparr>df_columns = cols, df_rows = []\<rparr>
      else if length cols \<noteq> width data
        then Inl (ValueError (str_nat (length cols) @ '' columns passed, passed data had '' @
                              str_nat (width data) @ '' columns''))
      else Inr \<lparr>df_columns = cols, df_rows = store pd (map (pad (width data)) data)\<rparr>)"

text \<open>
  \<open>.melt(id_vars="datetime", var_name="sensor")\<close> on a frame whose first column is
  \<open>datetime\<close>: for each other column in turn, one row \<open>(datetime, sensor, value)\<close> per row
  of the frame. The melted frame has a column \<open>value\<close> of its own, so a frame that already
  has a column of that name is refused; and with a second column named \<open>datetime\<close> the
  identifier column is no single column and building the result fails. Both are
  \<open>ValueError\<close>s with the messages of pandas 2.0 here (the exception of the second case
  differs between versions of pandas); the method compares a message with that of an
  empty concatenation only.
\<close>

definition melt :: "'n dataframe \<Rightarrow> py_error + ('n cell \<times> string \<times> 'n cell) list" where
  "melt df =
     (if ''value'' \<in> set (df_columns df)
        then Inl (ValueError
                    ''value_name (value) cannot match an element in the DataFrame columns.'')
      else if ''datetime'' \<in> set (tl (df_columns df))
        then Inl (ValueError ''Per-column arrays must each be 1-dimensional'')
      else Inr (concat (map (\<lambda>j. map (\<lambda>r. (r ! 0, df_columns df ! j, r ! j)) (df_rows df))
                            [1..<length (df_columns df)])))"

record 'n row =
  row_datetime :: "'n cell"
  row_sensor :: string
  row_value :: "'n cell"
  row_device :: string

text \<open>\<open>.assign(device=device_id)\<close>.\<close>

definition assign_device :: "string \<Rightarrow> ('n cell \<times> string \<times> 'n cell) list \<Rightarrow> 'n row list" where
  "assign_device d ms =
     map (\<lambda>(t, s, v). \<lparr>row_datetime = t, row_sensor = s, row_value = v, row_device = d\<rparr>) ms"

text \<open>One element of the generator handed to \<open>pd.concat\<close>.\<close>

definition sensor_frame ::
  "'n pandas \<Rightarrow> string \<Rightarrow> string \<Rightarrow> 'n sensor_data \<Rightarrow> py_error + 'n row list" where
  "sensor_frame pd device_id sensor_id sensor_data =
     (case get_column_headers sensor_id sensor_data of
        Inl e \<Rightarrow> Inl e
      | Inr cols \<Rightarrow>
          (case DataFrame pd sensor_data cols of
             Inl e \<Rightarrow> Inl e
           | Inr df \<Rightarrow>
               (case melt df of
                  Inl e \<Rightarrow> Inl e
                | Inr ms \<Rightarrow> Inr (assign_device device_id ms))))"

text \<open>
  \<open>pd.concat\<close> first turns the generator into a list, so the first frame whose construction
  raises decides the outcome; an empty list raises
  \<open>ValueError("No objects to concatenate")\<close>.
\<close>

fun frames ::
  "'n pandas \<Rightarrow> (string \<times> string \<times> 'n sensor_data) list \<Rightarrow> py_error + 'n row list list" where
  "frames pd [] = Inr []"
| "frames pd ((d, s, sensor_data) # rest) =
     (case sensor_frame pd d s sensor_data of
        Inl e \<Rightarrow> Inl e
      | Inr f \<Rightarrow> (case frames pd rest of Inl e \<Rightarrow> Inl e | Inr fs \<Rightarrow> Inr (f # fs)))"

definition pd_concat :: "py_error + 'a list list \<Rightarrow> py_error + 'a list" where
  "pd_concat objs =
     (case objs of
        Inl e \<Rightarrow> Inl e
      | Inr fs \<Rightarrow>
          if fs = [] then Inl (ValueError ''No objects to concatenate'') else Inr (concat fs))"

text \<open>
  \<open>pd.to_datetime(data["datetime"], unit="ms")\<close> raises \<open>OutOfBoundsDatetime\<close> when a
  number of the column is outside the range of pandas timestamps. Otherwise it keeps the
  order of the numbers and sends a missing value to \<open>NaT\<close>; the timestamp stays the number
  here.
\<close>

definition to_datetime :: "'n pandas \<Rightarrow> 'n row list \<Rightarrow> py_error + 'n row list" where
  "to_datetime pd rs =
     (if \<forall>r\<in>set rs. (case row_datetime r of None \<Rightarrow> True | Some t \<Rightarrow> in_range pd t)
      then Inr rs else Inl OutOfBoundsDatetime)"

text \<open>
  The result is a series: an index \<open>(device, sensor, datetime)\<close> and a value per row.
  \<open>sort_index\<close> is a stable sort by the index tuple, strings in code point order, with
  \<open>NaT\<close> after every timestamp.
\<close>

type_synonym 'n index = "string \<times> string \<times> 'n cell"
type_synonym 'n series = "('n index \<times> 'n cell) list"

definition set_index :: "'n row list \<Rightarrow> 'n series" where
  "set_index rs = map (\<lambda>r. ((row_device r, row_sensor r, row_datetime r), row_value r)) rs"

definition index_key :: "'n index \<Rightarrow> string \<times> string \<times> bool \<times> 'n cell" where
  "index_key i = (case i of (d, s, t) \<Rightarrow> (d, s, t = None, t))"

definition sort_index :: "'n::linorder series \<Rightarrow> 'n series" where
  "sort_index xs = sort_key (\<lambda>x. index_key (fst x)) xs"

text \<open>
  The second half of \<open>SensorList.get_data\<close>, from the answer of the request to the
  returned series.
\<close>

definition reshape :: "'n::linorder pandas \<Rightarrow> 'n raw_data \<Rightarrow> py_error + 'n series" where
  "reshape pd data =
     (case pd_concat (frames pd (loop_through_sensors data)) of
        Inl e \<Rightarrow>
          (case e of
             ValueError msg \<Rightarrow>
               if msg = ''No objects to concatenate''
               then Inl (KeyError ''no data for this device/sensor/datetime combination'')
               else Inl e
           | _ \<Rightarrow> Inl e)
      | Inr rs \<Rightarrow>
          (case to_datetime pd rs of
             Inl e \<Rightarrow> Inl e
           | Inr rs' \<Rightarrow> Inr (sort_index (set_index rs'))))"

text \<open>\<open>SensorList.get_data\<close>.\<close>

definition SensorList_get_data ::
  "'n::linorder pandas \<Rightarrow> ('d \<Rightarrow> py_error + int) \<Rightarrow> 'n sensor list \<Rightarrow> 'd \<Rightarrow> 'd \<Rightarrow>
     py_error + 'n series" where
  "SensorList_get_data pd to_ms self from_date to_date =
     (case fetch to_ms self from_date to_date of
        Inl e \<Rightarrow> Inl e
      | Inr data \<Rightarrow> reshape pd data)"

text \<open>\<open>Sensor.get_data\<close>.\<close>

definition Sensor_get_data ::
  "'n::linorder pandas \<Rightarrow> ('d \<Rightarrow> py_error + int) \<Rightarrow> 'n sensor \<Rightarrow> 'd \<Rightarrow> 'd \<Rightarrow>
     py_error + 'n series" where
  "Sensor_get_data pd to_ms self from_date to_date =
     SensorList_get_data pd to_ms [self] from_date to_date"

section \<open>Notions of the specification\<close>

text \<open>
  The arity of a record list is the number of values after the timestamp in its first
  record; a record list is uniform when every record has that many values after its
  timestamp.
\<close>

definition arity :: "'n sensor_data \<Rightarrow> nat" where
  "arity recs = length (hd recs) - 1"


text \<open>
  The sensor column identifiers of a sensor: the sensor identifier itself for arity one,
  the identifier with the suffixes \<open>_0\<close>, ..., \<open>_{k-1}\<close> otherwise.
\<close>

definition sensor_columns :: "string \<Rightarrow> 'n sensor_data \<Rightarrow> string list" where
  "sensor_columns s recs =
     (if arity recs = 1 then [s] else map (\<lambda>i. s @ ''_'' @ str_nat i) [0..<arity recs])"

text \<open>The timestamp of a record is its first cell (missing for a record with no cell).\<close>

definition record_timestamp :: "'n cell list \<Rightarrow> 'n cell" where
  "record_timestamp r = (case r of [] \<Rightarrow> None | t # _ \<Rightarrow> t)"




text \<open>
  The timestamps a response holds for the sensor column \<open>c\<close> of the device \<open>d\<close>, and the
  precondition that no sensor column has a timestamp twice.
\<close>

definition column_timestamps :: "'n raw_data \<Rightarrow> string \<Rightarrow> string \<Rightarrow> 'n cell list" where
  "column_timestamps data d c =
     concat (map (\<lambda>(d', s, recs).
                    if d' = d \<and> c \<in> set (sensor_columns s recs)
                    then map record_timestamp recs else [])
                 (loop_through_sensors data))"

definition unique_timestamps :: "'n raw_data \<Rightarrow> bool" where
  "unique_timestamps data = (\<forall>d c. distinct (column_timestamps data d c))"

text \<open>The response without its empty record lists.\<close>

definition drop_empty :: "'n raw_data \<Rightarrow> 'n raw_data" where
  "drop_empty data = map (\<lambda>(d, ss). (d, filter (\<lambda>(s, recs). recs \<noteq> []) ss)) data"




section \<open>Example inputs\<close>

definition ex_data :: "int raw_data" where
  "ex_data = [(''A'', [(''s1'', [[Some 2000, Some 7], [Some 1000, Some 5]]), (''s2'', [])]),
              (''B'', [(''s3'', [[Some 1000, Some 1, Some 2, Some 3]])])]"

definition ex_client :: "int client" where
  "ex_client = Client ''me''
     (\<lambda>p. if p = ''devices'' then Inr [Params ''A'' [], Params ''B'' []] else Inl (HTTPError 404))
     (\<lambda>p. if p = ''devices/A''
             then Inr [(''A'', [(''s1'', Params ''s1'' []), (''s2'', Params ''s2'' [])])]
           else if p = ''devices/B''
             then Inr [(''B'', [(''s3'', Params ''s3'' []), (''s1'', Params ''s1'' [])])]
           else Inl (HTTPError 404))
     (\<lambda>p q. if p = ''data/A:(s1,s2),B:(s3))'' then Inr ex_data else Inl (HTTPError 404))"

definition ex_A :: "int device" where
  "ex_A = Device (Params ''A'' []) ex_client"
definition ex_B :: "int device" where
  "ex_B = Device (Params ''B'' []) ex_client"


text \<open>A client that answers the data request at the path without the closing parenthesis only.\<close>

definition ex_client_strict :: "int client" where
  "ex_client_strict = Client ''me''
     (\<lambda>p. Inl (HTTPError 404))
     (\<lambda>p. Inl (HTTPError 404))
     (\<lambda>p q. if p = ''data/A:(s1,s2),B:(s3)'' then Inr ex_data else Inl (HTTPError 404))"

definition ex_sensors :: "int client \<Rightarrow> int sensor list" where
  "ex_sensors c =
     [Sensor (Params ''s1'' []) (Device (Params ''A'' []) c),
      Sensor (Params ''s2'' []) (Device (Params ''A'' []) c),
      Sensor (Params ''s3'' []) (Device (Params ''B'' []) c)]"

text \<open>Dates given as their milliseconds; a date that does not convert.\<close>

definition ex_to_ms :: "int option \<Rightarrow> py_error + int" where
  "ex_to_ms d = (case d of None \<Rightarrow> Inl (ValueError ''not a date'') | Some ms \<Rightarrow> Inr ms)"

definition no_sensors :: "int sensor list" where
  "no_sensors = []"

text \<open>A response in which no sensor has data, and a client that answers it.\<close>

definition ex_data_empty :: "int raw_data" where
  "ex_data_empty = [(''A'', [(''s1'', []), (''s2'', [])]), (''B'', [(''s3'', [])])]"

definition ex_client_empty :: "int client" where
  "ex_client_empty = Client ''me''
     (\<lambda>p. Inl (HTTPError 404))
     (\<lambda>p. Inl (HTTPError 404))
     (\<lambda>p q. Inr ex_data_empty)"

text \<open>The series expected for \<open>ex_data\<close>, and its rows in response order.\<close>

definition ex_table :: "int series" where
  "ex_table =
     [((''A'', ''s1'', Some 1000), Some 5),
      ((''A'', ''s1'', Some 2000), Some 7),
      ((''B'', ''s3_0'', Some 1000), Some 1),
      ((''B'', ''s3_1'', Some 1000), Some 2),
      ((''B'', ''s3_2'', Some 1000), Some 3)]"


text \<open>
  Integers of moderate size: pandas stores them as they are, and the range of its
  timestamps is that of 64-bit nanoseconds.
\<close>

definition ex_pd :: "int pandas" where
  "ex_pd = \<lparr>in_range = (\<lambda>t. - 9223372036854 \<le> t \<and> t \<le> 9223372036854),
            stored = (\<lambda>col c. c)\<rparr>"




section \<open>Catalog resolution\<close>

lemma ex_devices: "Client_devices ex_client = Inr [ex_A, ex_B]"
  by (simp add: Client_devices_def ex_client_def ex_A_def ex_B_def)

lemma ex_sensors_A: "Device_sensors ex_A = Inr [Sensor (Params ''s1'' []) ex_A, Sensor (Params ''s2'' []) ex_A]"
  by (simp add: Device_sensors_def ex_client_def ex_A_def Device_id_def)

lemma ex_sensors_B: "Device_sensors ex_B = Inr [Sensor (Params ''s3'' []) ex_B, Sensor (Params ''s1'' []) ex_B]"
  by (simp add: Device_sensors_def ex_client_def ex_B_def Device_id_def)

text \<open>
  Claim C5. Once the catalog has been fetched, \<open>get_devices(ids)\<close> and \<open>get_sensors(ids)\<close>
  return without error the entries of the catalog whose identifier is in \<open>ids\<close>, in catalog
  order (a subsequence of the catalog, whatever the order of \<open>ids\<close>; unknown identifiers
  select nothing); with \<open>ids\<close> empty or \<open>None\<close> they return the whole catalog.
\<close>

theorem batch_accessors_filter:
  "(Client_devices c = Inr catalog \<longrightarrow>
      (\<exists>r. Client_get_devices c ids = Inr r \<and> subseq r catalog \<and>
           r = (if py_not ids then catalog
                else filter (\<lambda>d. Device_id d \<in> set (ids_of ids)) catalog))) \<and>
   (Device_sensors d = Inr sensors \<longrightarrow>
      (\<exists>r. Device_get_sensors d ids = Inr r \<and> subseq r sensors \<and>
           r = (if py_not ids then sensors
                else filter (\<lambda>s. Sensor_id s \<in> set (ids_of ids)) sensors)))"
  by (simp add: Client_get_devices_def Device_get_sensors_def)

text \<open>The devices \<open>A, B\<close> asked for as \<open>B, zz, A\<close>, and the sensors of \<open>B\<close>.\<close>

theorem batch_accessors_filter_witness:
  "Client_devices ex_client = Inr [ex_A, ex_B] \<and>
   Client_get_devices ex_client (Some [''B'', ''zz'', ''A'']) = Inr [ex_A, ex_B] \<and>
   Client_get_devices ex_client (Some [''B'', ''zz'']) = Inr [ex_B] \<and>
   Client_get_devices ex_client None = Inr [ex_A, ex_B] \<and>
   Device_sensors ex_B = Inr [Sensor (Params ''s3'' []) ex_B, Sensor (Params ''s1'' []) ex_B] \<and>
   Device_get_sensors ex_B (Some [''s1'', ''s9'']) = Inr [Sensor (Params ''s1'' []) ex_B] \<and>
   Device_get_sensors ex_B (Some []) = Inr [Sensor (Params ''s3'' []) ex_B, Sensor (Params ''s1'' []) ex_B]"
  using batch_accessors_filter [of ex_client "[ex_A, ex_B]" "Some [''B'', ''zz'', ''A'']" ex_B
          "[Sensor (Params ''s3'' []) ex_B, Sensor (Params ''s1'' []) ex_B]"]
        batch_accessors_filter [of ex_client "[ex_A, ex_B]" "Some [''B'', ''zz'']" ex_B
          "[Sensor (Params ''s3'' []) ex_B, Sensor (Params ''s1'' []) ex_B]"]
        batch_accessors_filter [of ex_client "[ex_A, ex_B]" None ex_B
          "[Sensor (Params ''s3'' []) ex_B, Sensor (Params ''s1'' []) ex_B]"]
        batch_accessors_filter [of ex_client "[ex_A, ex_B]" "Some [''s1'', ''s9'']" ex_B
          "[Sensor (Params ''s3'' []) ex_B, Sensor (Params ''s1'' []) ex_B]"]
        batch_accessors_filter [of ex_client "[ex_A, ex_B]" "Some []" ex_B
          "[Sensor (Params ''s3'' []) ex_B, Sensor (Params ''s1'' []) ex_B]"]
        ex_devices ex_sensors_B
  by (simp add: py_not_def ids_of_def Device_id_def Sensor_id_def ex_A_def ex_B_def)

lemma find_filter: "find P xs = (case filter P xs of [] \<Rightarrow> None | x # _ \<Rightarrow> Some x)"
  by (induction xs) auto

lemma find_in_image:
  "i \<in> f ` set xs \<Longrightarrow> \<exists>x. find (\<lambda>x. f x = i) xs = Some x \<and> x \<in> set xs \<and> f x = i"
  by (induction xs) auto

lemma find_not_in_image: "i \<notin> f ` set xs \<Longrightarrow> find (\<lambda>x. f x = i) xs = None"
  by (induction xs) auto

lemma Client_get_device_find:
  "Client_devices c = Inr catalog \<Longrightarrow>
   Client_get_device c i =
     (case find (\<lambda>d. Device_id d = i) catalog of
        None \<Rightarrow> Inl (KeyError ''device not found'')
      | Some d \<Rightarrow> Inr d)"
  by (simp add: Client_get_device_def Client_get_devices_def py_not_def ids_of_def find_filter
           split: list.splits)

lemma Device_get_sensor_find:
  "Device_sensors d = Inr sensors \<Longrightarrow>
   Device_get_sensor d j =
     (case find (\<lambda>s. Sensor_id s = j) sensors of
        None \<Rightarrow> Inl (KeyError ''sensor not found'')
      | Some s \<Rightarrow> Inr s)"
  by (simp add: Device_get_sensor_def Device_get_sensors_def py_not_def ids_of_def find_filter
           split: list.splits)

text \<open>
  Claim C6. Once the catalog has been fetched, \<open>get_device(i)\<close> returns one device of the
  catalog with identifier \<open>i\<close> (the first one) when there is one, and raises
  \<open>KeyError("device not found")\<close> when there is none, while \<open>get_devices\<close> returns a list for
  every \<open>ids\<close>; likewise \<open>get_sensor\<close>, \<open>KeyError("sensor not found")\<close> and \<open>get_sensors\<close>.
\<close>

theorem single_accessors_not_found:
  "(Client_devices c = Inr catalog \<longrightarrow>
      (i \<in> Device_id ` set catalog \<longrightarrow>
         (\<exists>d. Client_get_device c i = Inr d \<and> d \<in> set catalog \<and> Device_id d = i \<and>
              find (\<lambda>d. Device_id d = i) catalog = Some d)) \<and>
      (i \<notin> Device_id ` set catalog \<longrightarrow>
         Client_get_device c i = Inl (KeyError ''device not found'')) \<and>
      (\<exists>r. Client_get_devices c ids = Inr r)) \<and>
   (Device_sensors d = Inr sensors \<longrightarrow>
      (j \<in> Sensor_id ` set sensors \<longrightarrow>
         (\<exists>s. Device_get_sensor d j = Inr s \<and> s \<in> set sensors \<and> Sensor_id s = j \<and>
              find (\<lambda>s. Sensor_id s = j) sensors = Some s)) \<and>
      (j \<notin> Sensor_id ` set sensors \<longrightarrow>
         Device_get_sensor d j = Inl (KeyError ''sensor not found'')) \<and>
      (\<exists>r. Device_get_sensors d ids = Inr r))"
proof -
  have dev: "Client_devices c = Inr catalog \<Longrightarrow> i \<in> Device_id ` set catalog \<Longrightarrow>
      \<exists>d. Client_get_device c i = Inr d \<and> d \<in> set catalog \<and> Device_id d = i \<and>
          find (\<lambda>d. Device_id d = i) catalog = Some d"
    using find_in_image [of i Device_id catalog] by (auto simp: Client_get_device_find)
  have dev_absent: "Client_devices c = Inr catalog \<Longrightarrow> i \<notin> Device_id ` set catalog \<Longrightarrow>
      Client_get_device c i = Inl (KeyError ''device not found'')"
    using find_not_in_image [of i Device_id catalog] by (simp add: Client_get_device_find)
  have dev_batch: "Client_devices c = Inr catalog \<Longrightarrow> \<exists>r. Client_get_devices c ids = Inr r"
    by (simp add: Client_get_devices_def)
  have sen: "Device_sensors d = Inr sensors \<Longrightarrow> j \<in> Sensor_id ` set sensors \<Longrightarrow>
      \<exists>s. Device_get_sensor d j = Inr s \<and> s \<in> set sensors \<and> Sensor_id s = j \<and>
          find (\<lambda>s. Sensor_id s = j) sensors = Some s"
    using find_in_image [of j Sensor_id sensors] by (auto simp: Device_get_sensor_find)
  have sen_absent: "Device_sensors d = Inr sensors \<Longrightarrow> j \<notin> Sensor_id ` set sensors \<Longrightarrow>
      Device_get_sensor d j = Inl (KeyError ''sensor not found'')"
    using find_not_in_image [of j Sensor_id sensors] by (simp add: Device_get_sensor_find)
  have sen_batch: "Device_sensors d = Inr sensors \<Longrightarrow> \<exists>r. Device_get_sensors d ids = Inr r"
    by (simp add: Device_get_sensors_def)
  show ?thesis
    using dev dev_absent dev_batch sen sen_absent sen_batch by blast
qed

text \<open>A present and an absent identifier, for devices and for sensors.\<close>

theorem single_accessors_not_found_witness:
  "Client_devices ex_client = Inr [ex_A, ex_B] \<and>
   Client_get_device ex_client ''B'' = Inr ex_B \<and>
   Client_get_device ex_client ''zz'' = Inl (KeyError ''device not found'') \<and>
   Client_get_devices ex_client (Some [''zz'']) = Inr [] \<and>
   Device_sensors ex_A = Inr [Sensor (Params ''s1'' []) ex_A, Sensor (Params ''s2'' []) ex_A] \<and>
   Device_get_sensor ex_A ''s2'' = Inr (Sensor (Params ''s2'' []) ex_A) \<and>
   Device_get_sensor ex_A ''s3'' = Inl (KeyError ''sensor not found'') \<and>
   Device_get_sensors ex_A (Some [''s3'']) = Inr []"
proof -
  have ids: "Device_id ex_A = ''A''" "Device_id ex_B = ''B''"
    by (simp_all add: Device_id_def ex_A_def ex_B_def)
  have batch_d: "Client_get_devices ex_client (Some [''zz'']) = Inr []"
    by (simp add: Client_get_devices_def ex_devices py_not_def ids_of_def ids)
  have batch_s: "Device_get_sensors ex_A (Some [''s3'']) = Inr []"
    by (simp add: Device_get_sensors_def ex_sensors_A py_not_def ids_of_def Sensor_id_def)
  show ?thesis
    using single_accessors_not_found [of ex_client "[ex_A, ex_B]" "''B''" "Some [''zz'']" ex_A
            "[Sensor (Params ''s1'' []) ex_A, Sensor (Params ''s2'' []) ex_A]" "''s2''"]
          single_accessors_not_found [of ex_client "[ex_A, ex_B]" "''zz''" "Some [''zz'']" ex_A
            "[Sensor (Params ''s1'' []) ex_A, Sensor (Params ''s2'' []) ex_A]" "''s3''"]
          ex_devices ex_sensors_A batch_d batch_s
    by (simp add: ids Sensor_id_def)
qed

lemma chain_star_all_Inr:
  "(\<forall>x\<in>set xs. f x = Inr (g x)) \<Longrightarrow> chain_star f xs = Inr (concat (map g xs))"
  by (induction xs) auto

lemma chain_star_cong:
  "(\<And>x. x \<in> set xs \<Longrightarrow> f x = g x) \<Longrightarrow> chain_star f xs = chain_star g xs"
  by (induction xs) (auto split: sum.splits)

text \<open>
  Claim C9. \<open>DevicesList.get_sensors(ids)\<close> is the concatenation, in device order, of each
  device's \<open>get_sensors(ids)\<close> (the first device that raises decides the error); when every
  device answers, the result is the concatenation of the answers, and for empty \<open>ids\<close> the
  concatenation of the full sensor lists.
\<close>

theorem devices_list_get_sensors_concat:
  "DevicesList_get_sensors ds ids = chain_star (\<lambda>d. Device_get_sensors d ids) ds \<and>
   ((\<forall>d\<in>set ds. Device_get_sensors d ids = Inr (f d)) \<longrightarrow>
      DevicesList_get_sensors ds ids = Inr (concat (map f ds))) \<and>
   (py_not ids \<and> (\<forall>d\<in>set ds. Device_sensors d = Inr (g d)) \<longrightarrow>
      DevicesList_get_sensors ds ids = Inr (concat (map g ds)))"
proof -
  have eq: "DevicesList_get_sensors ds ids = chain_star (\<lambda>d. Device_get_sensors d ids) ds"
    by (cases "py_not ids")
       (simp_all add: DevicesList_get_sensors_def Device_get_sensors_def cong: chain_star_cong)
  have all: "(\<forall>d\<in>set ds. Device_get_sensors d ids = Inr (f d)) \<Longrightarrow>
      DevicesList_get_sensors ds ids = Inr (concat (map f ds))"
    by (simp add: eq chain_star_all_Inr)
  have full: "py_not ids \<Longrightarrow> (\<forall>d\<in>set ds. Device_sensors d = Inr (g d)) \<Longrightarrow>
      DevicesList_get_sensors ds ids = Inr (concat (map g ds))"
    by (simp add: DevicesList_get_sensors_def chain_star_all_Inr)
  show ?thesis using eq all full by blast
qed

text \<open>The sensor \<open>s1\<close> exists on both devices and is returned once per device.\<close>

theorem devices_list_get_sensors_concat_witness:
  "Device_get_sensors ex_A (Some [''s1'']) = Inr [Sensor (Params ''s1'' []) ex_A] \<and>
   Device_get_sensors ex_B (Some [''s1'']) = Inr [Sensor (Params ''s1'' []) ex_B] \<and>
   DevicesList_get_sensors [ex_A, ex_B] (Some [''s1'']) =
     Inr [Sensor (Params ''s1'' []) ex_A, Sensor (Params ''s1'' []) ex_B] \<and>
   DevicesList_get_sensors [ex_A, ex_B] None =
     Inr [Sensor (Params ''s1'' []) ex_A, Sensor (Params ''s2'' []) ex_A,
          Sensor (Params ''s3'' []) ex_B, Sensor (Params ''s1'' []) ex_B]"
proof -
  have neq: "ex_A \<noteq> ex_B" by (simp add: ex_A_def ex_B_def)
  have a: "Device_get_sensors ex_A (Some [''s1'']) = Inr [Sensor (Params ''s1'' []) ex_A]"
    by (simp add: Device_get_sensors_def ex_sensors_A py_not_def ids_of_def Sensor_id_def)
  have b: "Device_get_sensors ex_B (Some [''s1'']) = Inr [Sensor (Params ''s1'' []) ex_B]"
    by (simp add: Device_get_sensors_def ex_sensors_B py_not_def ids_of_def Sensor_id_def)
  have c: "Device_get_sensors ex_A None = Device_sensors ex_A"
    "Device_get_sensors ex_B None = Device_sensors ex_B"
    by (simp_all add: Device_get_sensors_def py_not_def)
  show ?thesis
    using devices_list_get_sensors_concat [of "[ex_A, ex_B]" "Some [''s1'']"
            "\<lambda>d. if d = ex_A then [Sensor (Params ''s1'' []) ex_A]
                 else [Sensor (Params ''s1'' []) ex_B]"
            "\<lambda>d. []"]
          devices_list_get_sensors_concat [of "[ex_A, ex_B]" None
            "\<lambda>d. if d = ex_A
                 then [Sensor (Params ''s1'' []) ex_A, Sensor (Params ''s2'' []) ex_A]
                 else [Sensor (Params ''s3'' []) ex_B, Sensor (Params ''s1'' []) ex_B]"
            "\<lambda>d. if d = ex_A
                 then [Sensor (Params ''s1'' []) ex_A, Sensor (Params ''s2'' []) ex_A]
                 else [Sensor (Params ''s3'' []) ex_B, Sensor (Params ''s1'' []) ex_B]"]
          a b c neq ex_sensors_A ex_sensors_B
    by (simp add: py_not_def)
qed

section \<open>Decimal numerals and column headers\<close>

lemma digit_char_inj: "m < 10 \<Longrightarrow> n < 10 \<Longrightarrow> digit_char m = digit_char n \<Longrightarrow> m = n"
proof -
  assume m: "m < 10" and n: "n < 10" and eq: "digit_char m = digit_char n"
  have d: "distinct ''0123456789''" by simp
  have "m < length ''0123456789''" "n < length ''0123456789''" using m n by simp_all
  with d eq show "m = n" unfolding digit_char_def by (simp only: nth_eq_iff_index_eq)
qed

lemma digit_char_digit: "n < 10 \<Longrightarrow> digit_char n \<in> set ''0123456789''"
  unfolding digit_char_def by (rule nth_mem) simp

lemma str_nat_nonempty: "str_nat n \<noteq> []"
  by (subst str_nat.simps) simp

lemma str_nat_hd: "hd (str_nat n) \<in> set ''0123456789''"
proof (induction n rule: str_nat.induct)
  case (1 n)
  show ?case
  proof (cases "n < 10")
    case True
    then show ?thesis using digit_char_digit [of n] by (subst str_nat.simps) simp
  next
    case False
    then have "hd (str_nat n) = hd (str_nat (n div 10))"
      by (subst str_nat.simps) (simp add: str_nat_nonempty)
    with 1 False show ?thesis by simp
  qed
qed

lemma str_nat_inj: "str_nat m = str_nat n \<Longrightarrow> m = n"
proof (induction m arbitrary: n rule: str_nat.induct)
  case (1 m)
  have sm: "str_nat m = (if m < 10 then [digit_char m]
              else str_nat (m div 10) @ [digit_char (m mod 10)])"
    by (subst str_nat.simps) simp
  have sn: "str_nat n = (if n < 10 then [digit_char n]
              else str_nat (n div 10) @ [digit_char (n mod 10)])"
    by (subst str_nat.simps) simp
  show ?case
  proof (cases "m < 10")
    case m: True
    show ?thesis
    proof (cases "n < 10")
      case True
      with m 1(2) sm sn show ?thesis by (simp add: digit_char_inj)
    next
      case False
      with m 1(2) sm sn show ?thesis using str_nat_nonempty [of "n div 10"] by auto
    qed
  next
    case m: False
    show ?thesis
    proof (cases "n < 10")
      case True
      with m 1(2) sm sn have "str_nat (m div 10) @ [digit_char (m mod 10)] = [digit_char n]"
        by simp
      then show ?thesis by (simp add: str_nat_nonempty)
    next
      case False
      with m 1(2) sm sn have eq: "str_nat (m div 10) = str_nat (n div 10)"
        and dg: "digit_char (m mod 10) = digit_char (n mod 10)"
        by simp_all
      from 1(1) [OF m eq] have "m div 10 = n div 10" .
      moreover from dg have "m mod 10 = n mod 10" by (simp add: digit_char_inj)
      ultimately show ?thesis by (metis div_mult_mod_eq)
    qed
  qed
qed

lemma length_sensor_columns: "length (sensor_columns s recs) = arity recs"
  by (simp add: sensor_columns_def)

lemma distinct_sensor_columns: "distinct (sensor_columns s recs)"
  by (auto simp: sensor_columns_def distinct_map intro!: inj_onI dest: str_nat_inj)

lemma get_column_headers_first:
  "get_column_headers s (r # rs) = Inr (''datetime'' # sensor_columns s (r # rs))"
proof -
  have "(int (length r) - 1 = 1) = (length r - 1 = 1)" by arith
  moreover have "nat (int (length r) - 1) = length r - 1" by arith
  ultimately show ?thesis
    by (simp add: get_column_headers_def sensor_columns_def arity_def py_range_def Let_def)
qed

section \<open>Frames\<close>



lemma pad_timestamp: "0 < w \<Longrightarrow> pad w r ! 0 = record_timestamp r"
  by (cases r) (simp_all add: pad_def record_timestamp_def)

lemma no_objects_not_numeral:
  "str_nat n @ rest \<noteq> ''No objects to concatenate''"
proof
  assume eq: "str_nat n @ rest = ''No objects to concatenate''"
  have "hd (str_nat n @ rest) = hd (str_nat n)"
    by (simp add: str_nat_nonempty)
  with eq have "hd (str_nat n) = CHR ''N''" by simp
  with str_nat_hd [of n] show False by simp
qed

lemma DataFrame_Inl:
  "DataFrame pd recs cols = Inl e \<Longrightarrow>
   \<exists>m. e = ValueError m \<and> m \<noteq> ''No objects to concatenate''"
  using no_objects_not_numeral by (auto simp: DataFrame_def split: if_splits)

lemma DataFrame_Inr:
  "recs \<noteq> [] \<Longrightarrow> DataFrame pd recs cols = Inr df \<Longrightarrow>
   length cols = width recs \<and> df_columns df = cols \<and>
   df_rows df = store pd (map (pad (width recs)) recs)"
  by (auto simp: DataFrame_def split: if_splits)

lemma store_timestamp:
  "\<forall>r\<in>set rows. 0 < length r \<Longrightarrow> map (\<lambda>r. r ! 0) (store pd rows) = map (\<lambda>r. r ! 0) rows"
  by (simp add: store_def upt_conv_Cons)



lemma set_index_assign:
  "set_index (assign_device d ms) = map (\<lambda>(t, s, v). ((d, s, t), v)) ms"
  by (simp add: set_index_def assign_device_def split_def)

lemma set_index_append: "set_index (xs @ ys) = set_index xs @ set_index ys"
  by (simp add: set_index_def)

lemma melt_Inl:
  "melt df = Inl e \<Longrightarrow> \<exists>m. e = ValueError m \<and> m \<noteq> ''No objects to concatenate''"
  by (auto simp: melt_def split: if_splits)

lemma melt_rows:
  "melt \<lparr>df_columns = c0 # cols, df_rows = rows\<rparr> = Inr ms \<Longrightarrow>
   set_index (assign_device d ms) =
   concat (map (\<lambda>j. map (\<lambda>r. ((d, cols ! j, r ! 0), r ! Suc j)) rows) [0..<length cols])"
proof -
  assume m: "melt \<lparr>df_columns = c0 # cols, df_rows = rows\<rparr> = Inr ms"
  have "[1..<Suc (length cols)] = map Suc [0..<length cols]"
    by (simp add: map_Suc_upt)
  with m show ?thesis
    by (auto simp: set_index_assign melt_def map_concat o_def split: if_splits)
qed



lemma sensor_frame_Inl:
  "recs \<noteq> [] \<Longrightarrow> sensor_frame pd d s recs = Inl e \<Longrightarrow>
   \<exists>m. e = ValueError m \<and> m \<noteq> ''No objects to concatenate''"
  by (cases recs)
     (auto simp: sensor_frame_def get_column_headers_first split: sum.splits
           dest: DataFrame_Inl melt_Inl)

lemma index_of_rows:
  "map fst (concat (map (\<lambda>j. map (\<lambda>r. ((d, cols ! j, t r), v j r)) recs) [0..<length cols])) =
   concat (map (\<lambda>c. map (\<lambda>r. (d, c, t r)) recs) cols)"
proof -
  have "map (\<lambda>j. map (\<lambda>r. (d, cols ! j, t r)) recs) [0..<length cols] =
        map (\<lambda>c. map (\<lambda>r. (d, c, t r)) recs) (map (\<lambda>j. cols ! j) [0..<length cols])"
    by (simp add: o_def)
  then show ?thesis
    by (simp add: map_concat o_def map_nth)
qed

lemma sensor_frame_index:
  assumes "recs \<noteq> []" and "sensor_frame pd d s recs = Inr f"
  shows "map fst (set_index f) =
     concat (map (\<lambda>c. map (\<lambda>r. (d, c, record_timestamp r)) recs) (sensor_columns s recs))"
proof -
  from assms(1) obtain r rs where recs: "recs = r # rs" by (cases recs) auto
  let ?cols = "''datetime'' # sensor_columns s recs"
  let ?rows = "store pd (map (pad (width recs)) recs)"
  from assms(2) recs obtain df ms where df: "DataFrame pd recs ?cols = Inr df"
    and ms: "melt df = Inr ms" and f: "f = assign_device d ms"
    by (auto simp: sensor_frame_def get_column_headers_first split: sum.splits)
  from DataFrame_Inr [OF assms(1) df]
  have w: "length ?cols = width recs" and c: "df_columns df = ?cols"
    and r: "df_rows df = ?rows" by simp_all
  have w': "0 < width recs" using w by simp
  have dfeq: "df = \<lparr>df_columns = ?cols, df_rows = ?rows\<rparr>"
    using c r by simp
  have "set_index f =
      concat (map (\<lambda>j. map (\<lambda>r. ((d, sensor_columns s recs ! j, r ! 0), r ! Suc j)) ?rows)
                  [0..<length (sensor_columns s recs)])"
    using ms f melt_rows [of "''datetime''" "sensor_columns s recs" ?rows ms d]
    by (simp add: dfeq)
  then have idx: "map fst (set_index f) =
      concat (map (\<lambda>c. map (\<lambda>r. (d, c, r ! 0)) ?rows) (sensor_columns s recs))"
    using index_of_rows [of d "sensor_columns s recs" "\<lambda>r. r ! 0" "\<lambda>j r. r ! Suc j" ?rows]
    by simp
  have ts: "map (\<lambda>r. r ! 0) ?rows = map record_timestamp recs"
  proof -
    have "\<forall>r\<in>set (map (pad (width recs)) recs). 0 < length r"
      using w' by (auto simp: pad_def)
    from store_timestamp [OF this]
    show ?thesis by (simp add: o_def pad_timestamp [OF w'])
  qed
  have eq: "map (\<lambda>r. (d, c, r ! 0)) ?rows = map (\<lambda>r. (d, c, record_timestamp r)) recs" for c
  proof -
    have "map (\<lambda>r. (d, c, r ! 0)) ?rows = map (\<lambda>t. (d, c, t)) (map (\<lambda>r. r ! 0) ?rows)"
      by (simp add: o_def)
    also have "\<dots> = map (\<lambda>r. (d, c, record_timestamp r)) recs"
      by (simp only: ts) (simp add: o_def)
    finally show ?thesis .
  qed
  show ?thesis unfolding idx eq ..
qed


section \<open>The generator, the frames and the sorted index\<close>

lemma loop_through_sensors_mem:
  "(d, s, recs) \<in> set (loop_through_sensors data) \<longleftrightarrow>
   (\<exists>ss. (d, ss) \<in> set data \<and> (s, recs) \<in> set ss \<and> recs \<noteq> [])"
  by (auto simp: loop_through_sensors_def split: if_splits)

lemma loop_through_sensors_nonempty:
  "x \<in> set (loop_through_sensors data) \<Longrightarrow> snd (snd x) \<noteq> []"
  by (cases x) (auto simp: loop_through_sensors_mem)

lemma loop_through_sensors_empty:
  "loop_through_sensors data = [] \<longleftrightarrow>
   (\<forall>(d, ss)\<in>set data. \<forall>(s, recs)\<in>set ss. recs = [])"
proof -
  have "loop_through_sensors data = [] \<longleftrightarrow>
        (\<forall>d s recs. (d, s, recs) \<notin> set (loop_through_sensors data))"
    by (cases "loop_through_sensors data") force+
  also have "\<dots> \<longleftrightarrow> (\<forall>(d, ss)\<in>set data. \<forall>(s, recs)\<in>set ss. recs = [])"
    unfolding loop_through_sensors_mem by fastforce
  finally show ?thesis .
qed

lemma loop_through_sensors_drop_empty:
  "loop_through_sensors (drop_empty data) = loop_through_sensors data"
proof -
  have inner: "concat (map (\<lambda>(s, recs). if recs \<noteq> [] then [(d, s, recs)] else [])
                 (filter (\<lambda>(s, recs). recs \<noteq> []) ss)) =
               concat (map (\<lambda>(s, recs). if recs \<noteq> [] then [(d, s, recs)] else []) ss)"
    for d :: string and ss :: "(string \<times> 'a sensor_data) list"
    by (induction ss) auto
  show ?thesis
    by (induction data) (auto simp: loop_through_sensors_def drop_empty_def inner)
qed

lemma frames_Inl:
  "\<forall>x\<in>set xs. snd (snd x) \<noteq> [] \<Longrightarrow> frames pd xs = Inl e \<Longrightarrow>
   \<exists>m. e = ValueError m \<and> m \<noteq> ''No objects to concatenate''"
proof (induction pd xs rule: frames.induct)
  case (1 pd)
  then show ?case by simp
next
  case (2 pd d s recs rest)
  then show ?case
    by (auto split: sum.splits dest: sensor_frame_Inl)
qed

lemma frames_length: "frames pd xs = Inr fs \<Longrightarrow> length fs = length xs"
  by (induction pd xs arbitrary: fs rule: frames.induct) (auto split: sum.splits)

lemma frames_index:
  "\<forall>x\<in>set xs. snd (snd x) \<noteq> [] \<Longrightarrow> frames pd xs = Inr fs \<Longrightarrow>
   map fst (set_index (concat fs)) =
   concat (map (\<lambda>(d, s, recs).
     concat (map (\<lambda>c. map (\<lambda>r. (d, c, record_timestamp r)) recs) (sensor_columns s recs))) xs)"
proof (induction pd xs arbitrary: fs rule: frames.induct)
  case (1 pd)
  then show ?case by (simp add: set_index_def)
next
  case (2 pd d s recs rest)
  from 2(3) obtain f fs' where f: "sensor_frame pd d s recs = Inr f"
    and fs': "frames pd rest = Inr fs'" and fs: "fs = f # fs'"
    by (auto split: sum.splits)
  from 2(2) have ne: "recs \<noteq> []" and rest: "\<forall>x\<in>set rest. snd (snd x) \<noteq> []"
    by simp_all
  from 2(1) [OF f rest fs'] sensor_frame_index [OF ne f] fs
  show ?case by (simp add: set_index_append)
qed



lemma mset_sort_index: "mset (sort_index xs) = mset xs"
  by (simp add: sort_index_def)

lemma sorted_sort_index: "sorted (map (\<lambda>x. index_key (fst x)) (sort_index xs))"
  by (simp add: sort_index_def)

lemma distinct_sort_index: "distinct (map fst (sort_index xs)) = distinct (map fst xs)"
proof -
  have "mset (map fst (sort_index xs)) = mset (map fst xs)"
    by (simp add: mset_sort_index)
  then show ?thesis by (rule mset_eq_imp_distinct_iff)
qed

lemma to_datetime_Inr: "to_datetime pd rs = Inr rs' \<Longrightarrow> rs' = rs"
  by (simp add: to_datetime_def split: if_splits)

lemma to_datetime_Inl: "to_datetime pd rs = Inl e \<Longrightarrow> e = OutOfBoundsDatetime"
  by (simp add: to_datetime_def split: if_splits)

lemma reshape_Inr:
  "reshape pd data = Inr table \<Longrightarrow>
   \<exists>fs. frames pd (loop_through_sensors data) = Inr fs \<and>
        table = sort_index (set_index (concat fs))"
  by (auto simp: reshape_def pd_concat_def split: sum.splits if_splits py_error.splits
           dest: to_datetime_Inr)


lemma reshape_no_data:
  "reshape pd data = Inl (KeyError ''no data for this device/sensor/datetime combination'') \<longleftrightarrow>
   loop_through_sensors data = []"
proof
  assume "loop_through_sensors data = []"
  then show "reshape pd data =
      Inl (KeyError ''no data for this device/sensor/datetime combination'')"
    by (simp add: reshape_def pd_concat_def)
next
  assume err: "reshape pd data =
      Inl (KeyError ''no data for this device/sensor/datetime combination'')"
  show "loop_through_sensors data = []"
  proof (rule ccontr)
    assume ne: "loop_through_sensors data \<noteq> []"
    show False
    proof (cases "frames pd (loop_through_sensors data)")
      case (Inl e)
      with frames_Inl [of "loop_through_sensors data" pd e] loop_through_sensors_nonempty
      obtain m where "e = ValueError m" "m \<noteq> ''No objects to concatenate''" by blast
      with Inl err show False by (simp add: reshape_def pd_concat_def)
    next
      case (Inr fs)
      from frames_length [OF Inr] ne have fs: "fs \<noteq> []" by auto
      show False
      proof (cases "to_datetime pd (concat fs)")
        case (Inl e)
        with to_datetime_Inl [OF Inl] Inr fs err show False
          by (simp add: reshape_def pd_concat_def)
      next
        case r: (Inr rs)
        with Inr fs err show False
          by (simp add: reshape_def pd_concat_def)
      qed
    qed
  qed
qed


lemma reshape_drop_empty: "reshape pd (drop_empty data) = reshape pd data"
  by (simp add: reshape_def loop_through_sensors_drop_empty)

lemma get_data_reshape:
  "fetch to_ms self from_date to_date = Inr data \<Longrightarrow>
   SensorList_get_data pd to_ms self from_date to_date = reshape pd data"
  by (simp add: SensorList_get_data_def)

section \<open>Duplicates in the index\<close>

lemma distinct_by_group:
  assumes "\<And>d c. distinct (map (\<lambda>x. snd (snd x))
                       (filter (\<lambda>x. fst x = d \<and> fst (snd x) = c) ys))"
  shows "distinct (ys :: ('a \<times> 'b \<times> 'c) list)"
  using assms
proof (induction ys)
  case Nil
  then show ?case by simp
next
  case (Cons y ys)
  have tail: "distinct (map (\<lambda>x. snd (snd x)) (filter (\<lambda>x. fst x = d \<and> fst (snd x) = c) ys))"
    for d c
    using Cons.prems [of d c] by (simp split: if_splits)
  have "y \<notin> set ys"
  proof
    assume mem: "y \<in> set ys"
    have "distinct (snd (snd y) #
            map (\<lambda>x. snd (snd x)) (filter (\<lambda>x. fst x = fst y \<and> fst (snd x) = fst (snd y)) ys))"
      using Cons.prems [of "fst y" "fst (snd y)"] by simp
    moreover have "snd (snd y) \<in>
        set (map (\<lambda>x. snd (snd x)) (filter (\<lambda>x. fst x = fst y \<and> fst (snd x) = fst (snd y)) ys))"
      using mem by force
    ultimately show False by simp
  qed
  with Cons.IH [OF tail] show ?case by simp
qed

lemma group_of_column:
  "distinct cols \<Longrightarrow>
   map (\<lambda>x. snd (snd x))
     (filter (\<lambda>x. fst x = d \<and> fst (snd x) = c)
        (concat (map (\<lambda>c'. map (\<lambda>r. (d', c', t r)) recs) cols))) =
   (if d' = d \<and> c \<in> set cols then map t recs else [])"
proof (induction cols)
  case Nil
  then show ?case by simp
next
  case (Cons c' cols)
  have one: "map (\<lambda>x. snd (snd x))
      (filter (\<lambda>x. fst x = d \<and> fst (snd x) = c) (map (\<lambda>r. (d', c', t r)) recs)) =
      (if d' = d \<and> c' = c then map t recs else [])"
    by (induction recs) auto
  from Cons show ?case by (auto simp: one)
qed

lemma group_of_index:
  "map (\<lambda>x. snd (snd x))
     (filter (\<lambda>x. fst x = d \<and> fst (snd x) = c)
        (concat (map (\<lambda>(d', s, recs).
           concat (map (\<lambda>c'. map (\<lambda>r. (d', c', record_timestamp r)) recs)
                       (sensor_columns s recs))) xs))) =
   concat (map (\<lambda>(d', s, recs).
     if d' = d \<and> c \<in> set (sensor_columns s recs) then map record_timestamp recs else []) xs)"
proof (induction xs)
  case Nil
  then show ?case by simp
next
  case (Cons x xs)
  obtain d' s recs where x: "x = (d', s, recs)" by (cases x) auto
  from Cons x
    group_of_column [where cols = "sensor_columns s recs" and d = d and c = c and d' = d'
      and t = record_timestamp and recs = recs, OF distinct_sensor_columns]
  show ?case by simp
qed

lemma unique_timestamps_distinct:
  assumes "unique_timestamps data"
    and "frames pd (loop_through_sensors data) = Inr fs"
  shows "distinct (map fst (set_index (concat fs)))"
proof -
  have idx: "map fst (set_index (concat fs)) =
      concat (map (\<lambda>(d, s, recs).
        concat (map (\<lambda>c. map (\<lambda>r. (d, c, record_timestamp r)) recs) (sensor_columns s recs)))
        (loop_through_sensors data))"
    using frames_index [OF _ assms(2)] loop_through_sensors_nonempty by blast
  show ?thesis
    unfolding idx
  proof (rule distinct_by_group)
    fix d c
    show "distinct (map (\<lambda>x. snd (snd x)) (filter (\<lambda>x. fst x = d \<and> fst (snd x) = c)
        (concat (map (\<lambda>(d, s, recs).
          concat (map (\<lambda>c. map (\<lambda>r. (d, c, record_timestamp r)) recs) (sensor_columns s recs)))
          (loop_through_sensors data)))))"
      using assms(1)
      by (simp only: group_of_index unique_timestamps_def column_timestamps_def)
  qed
qed





section \<open>The example response\<close>

lemma data_path_ex: "data_path (ex_sensors c) = ''data/A:(s1,s2),B:(s3))''"
  by (simp add: data_path_def query_def to_query_def ex_sensors_def Device_id_def Sensor_id_def)

lemma fetch_ex: "fetch ex_to_ms (ex_sensors ex_client) (Some 0) (Some 1) = Inr ex_data"
  by (simp add: fetch_def ex_to_ms_def data_path_ex [unfolded ex_sensors_def] ex_sensors_def
        ex_client_def)

lemma fetch_ex_empty:
  "fetch ex_to_ms (ex_sensors ex_client_empty) (Some 0) (Some 1) = Inr ex_data_empty"
  by (simp add: fetch_def ex_to_ms_def ex_sensors_def ex_client_empty_def)


lemma reshape_drop_empty_ex_data: "reshape ex_pd (drop_empty ex_data) = Inr ex_table"
  by code_simp

lemma unique_timestamps_ex_data: "unique_timestamps ex_data"
  by (auto simp: unique_timestamps_def column_timestamps_def loop_through_sensors_def ex_data_def
        record_timestamp_def sensor_columns_def arity_def)








lemma get_data_ex:
  "SensorList_get_data ex_pd ex_to_ms (ex_sensors ex_client) (Some 0) (Some 1) = Inr ex_table"
  using get_data_reshape [OF fetch_ex, of ex_pd] reshape_drop_empty [of ex_pd ex_data]
  by (simp only: reshape_drop_empty_ex_data)

section \<open>Time-series fetch and reshaping\<close>




text \<open>
  Claim C2. The column headers of a non-empty record list depend on its first record only:
  for a first record of length two (arity one) the single sensor column is the sensor
  identifier, for a longer one (arity \<open>k > 1\<close>) there are \<open>k\<close> distinct sensor columns, the
  \<open>i\<close>-th being the identifier followed by \<open>_i\<close>.
\<close>

theorem column_headers_from_first_record:
  "get_column_headers s (r # rs) = get_column_headers s [r] \<and>
   (length r = 2 \<longrightarrow> get_column_headers s (r # rs) = Inr [''datetime'', s]) \<and>
   (2 < length r \<longrightarrow>
      (\<exists>cols. get_column_headers s (r # rs) = Inr (''datetime'' # cols) \<and>
              length cols = length r - 1 \<and> distinct cols \<and>
              (\<forall>i<length r - 1. cols ! i = s @ ''_'' @ str_nat i)))"
proof -
  have one: "get_column_headers s (r # rs) = get_column_headers s [r]"
    by (simp add: get_column_headers_def)
  have two: "length r = 2 \<Longrightarrow> get_column_headers s (r # rs) = Inr [''datetime'', s]"
    by (simp add: get_column_headers_def)
  have many: "2 < length r \<Longrightarrow>
      \<exists>cols. get_column_headers s (r # rs) = Inr (''datetime'' # cols) \<and>
             length cols = length r - 1 \<and> distinct cols \<and>
             (\<forall>i<length r - 1. cols ! i = s @ ''_'' @ str_nat i)"
  proof -
    assume len: "2 < length r"
    have "length (sensor_columns s (r # rs)) = length r - 1"
      by (simp add: length_sensor_columns arity_def)
    moreover have "arity (r # rs) \<noteq> 1"
      using len by (simp add: arity_def)
    then have "\<forall>i<length r - 1. sensor_columns s (r # rs) ! i = s @ ''_'' @ str_nat i"
      by (simp add: sensor_columns_def) (simp add: arity_def)
    ultimately show ?thesis
      using get_column_headers_first [of s r rs] distinct_sensor_columns [of s "r # rs"]
      by blast
  qed
  show ?thesis using one two many by blast
qed

text \<open>A sensor of arity one and a sensor of arity three, each with a shorter second record.\<close>

theorem column_headers_from_first_record_witness:
  "get_column_headers ''e1'' [[Some 1000, Some 5], [Some (2000::int)]] = Inr [''datetime'', ''e1''] \<and>
   get_column_headers ''p1'' [[Some 1000, Some 1, Some 2, Some (3::int)], [Some 2000, Some 4]] =
     Inr [''datetime'', ''p1_0'', ''p1_1'', ''p1_2'']"
proof -
  have a: "get_column_headers ''p1'' [[Some 1000, Some 1, Some 2, Some (3::int)], [Some 2000, Some 4]] =
     Inr [''datetime'', ''p1_0'', ''p1_1'', ''p1_2'']"
    by (simp add: get_column_headers_def py_range_def upt_rec str_nat.simps digit_char_def)
  show ?thesis
    using column_headers_from_first_record
            [of "''e1''" "[Some 1000, Some (5::int)]" "[[Some 2000]]", THEN conjunct2]
          column_headers_from_first_record
            [of "''p1''" "[Some 1000, Some 1, Some 2, Some (3::int)]" "[[Some 2000, Some 4]]"]
          a
    by simp
qed

text \<open>
  Claim C3. When the request answers, \<open>SensorList.get_data\<close> raises the no-data
  \<open>KeyError\<close> exactly when every record list of the response is empty; and its outcome is
  that of reshaping the response without its empty record lists, so an empty record list
  contributes no row and no error.
\<close>

theorem no_data_iff_all_empty:
  assumes "fetch to_ms self from_date to_date = Inr data"
  shows "(SensorList_get_data pd to_ms self from_date to_date =
            Inl (KeyError ''no data for this device/sensor/datetime combination'') \<longleftrightarrow>
          (\<forall>(d, ss)\<in>set data. \<forall>(s, recs)\<in>set ss. recs = [])) \<and>
         SensorList_get_data pd to_ms self from_date to_date = reshape pd (drop_empty data)"
  using get_data_reshape [OF assms, of pd]
  by (simp add: reshape_no_data loop_through_sensors_empty reshape_drop_empty)

text \<open>
  The response \<open>ex_data\<close>, in which the sensor \<open>s2\<close> has no data, and a response in which
  no sensor has data.
\<close>

theorem no_data_iff_all_empty_witness:
  "SensorList_get_data ex_pd ex_to_ms (ex_sensors ex_client) (Some 0) (Some 1) = Inr ex_table \<and>
   SensorList_get_data ex_pd ex_to_ms (ex_sensors ex_client_empty) (Some 0) (Some 1) =
     Inl (KeyError ''no data for this device/sensor/datetime combination'')"
proof -
  have "\<forall>(d, ss)\<in>set ex_data_empty. \<forall>(s, recs)\<in>set ss. recs = []"
    by (simp add: ex_data_empty_def)
  with no_data_iff_all_empty [OF fetch_ex_empty, of ex_pd]
    no_data_iff_all_empty [OF fetch_ex, of ex_pd]
  show ?thesis by (simp add: reshape_drop_empty_ex_data)
qed

text \<open>
  Claim C4. A series returned by \<open>SensorList.get_data\<close> is sorted ascending by (device,
  sensor column, timestamp), a missing timestamp after every other; and when no sensor
  column of the response has a timestamp twice, no index tuple occurs twice.
\<close>

theorem sorted_unique_index:
  assumes "fetch to_ms self from_date to_date = Inr data"
    and "SensorList_get_data pd to_ms self from_date to_date = Inr table"
  shows "sorted (map (\<lambda>x. index_key (fst x)) table) \<and>
         (unique_timestamps data \<longrightarrow> distinct (map fst table))"
proof -
  from assms have "reshape pd data = Inr table"
    by (simp add: get_data_reshape)
  from reshape_Inr [OF this] obtain fs
    where fs: "frames pd (loop_through_sensors data) = Inr fs"
    and table: "table = sort_index (set_index (concat fs))" by blast
  have "sorted (map (\<lambda>x. index_key (fst x)) table)"
    unfolding table by (rule sorted_sort_index)
  moreover have "distinct (map fst table)" if "unique_timestamps data"
    unfolding table distinct_sort_index
    using that fs by (rule unique_timestamps_distinct)
  ultimately show ?thesis by blast
qed

text \<open>The series returned for \<open>ex_data\<close>.\<close>

theorem sorted_unique_index_witness:
  "SensorList_get_data ex_pd ex_to_ms (ex_sensors ex_client) (Some 0) (Some 1) = Inr ex_table \<and>
   unique_timestamps ex_data \<and>
   sorted (map (\<lambda>x. index_key (fst x)) ex_table) \<and>
   distinct (map fst ex_table)"
proof -
  note th = sorted_unique_index [OF fetch_ex get_data_ex]
  show ?thesis
    apply (intro conjI)
       apply (rule get_data_ex)
      apply (rule unique_timestamps_ex_data)
     apply (rule th [THEN conjunct1])
    apply (rule th [THEN conjunct2, THEN mp, OF unique_timestamps_ex_data])
    done
qed

text \<open>
  Claim C7, as the code has it. On an empty sensor collection \<open>SensorList.get_data\<close> raises
  what the conversion of a date raises, and \<open>IndexError\<close> (from \<open>self[0]\<close>) when both dates
  convert; no client is at hand, so no request is made.
\<close>

theorem get_data_empty_collection:
  "SensorList_get_data pd to_ms [] from_date to_date =
     (case to_ms from_date of
        Inl e \<Rightarrow> Inl e
      | Inr a \<Rightarrow> (case to_ms to_date of Inl e \<Rightarrow> Inl e | Inr b \<Rightarrow> Inl IndexError))"
  by (simp add: SensorList_get_data_def fetch_def split: sum.splits)

text \<open>
  With two dates that convert, the empty collection raises \<open>IndexError\<close>, not an
  invalid-argument error.
\<close>

theorem empty_collection_raises_index_error:
  "SensorList_get_data ex_pd ex_to_ms no_sensors (Some 0) (Some 1) = Inl IndexError"
  by (simp add: SensorList_get_data_def fetch_def ex_to_ms_def no_sensors_def)

text \<open>A date that does not convert, and two dates that do.\<close>

theorem get_data_empty_collection_witness:
  "SensorList_get_data ex_pd ex_to_ms no_sensors None (Some 1) =
     Inl (ValueError ''not a date'') \<and>
   SensorList_get_data ex_pd ex_to_ms no_sensors (Some 1) (Some 2) = Inl IndexError"
  using get_data_empty_collection [of ex_pd ex_to_ms None "Some 1"]
        get_data_empty_collection [of ex_pd ex_to_ms "Some 1" "Some 2"]
  by (simp add: ex_to_ms_def no_sensors_def)

text \<open>
  Claim C8. For the sensors \<open>s1, s2\<close> of device \<open>A\<close> and \<open>s3\<close> of device \<open>B\<close> the path of
  the request ends with a second closing parenthesis after the query: a transport that
  answers at that path is read, and one that answers only at
  \<^verbatim>\<open>data/A:(s1,s2),B:(s3)\<close> is asked at another path and fails.
\<close>

theorem data_path_stray_parenthesis:
  "data_path (ex_sensors ex_client) = ''data/A:(s1,s2),B:(s3))'' \<and>
   SensorList_get_data ex_pd ex_to_ms (ex_sensors ex_client) (Some 0) (Some 1) = Inr ex_table \<and>
   SensorList_get_data ex_pd ex_to_ms (ex_sensors ex_client_strict) (Some 0) (Some 1) =
     Inl (RequestError (HTTPError 404))"
proof -
  have "fetch ex_to_ms (ex_sensors ex_client_strict) (Some 0) (Some 1) =
      Inl (RequestError (HTTPError 404))"
    by (simp add: fetch_def ex_to_ms_def data_path_ex [unfolded ex_sensors_def] ex_sensors_def
          ex_client_strict_def)
  then have "SensorList_get_data ex_pd ex_to_ms (ex_sensors ex_client_strict) (Some 0) (Some 1) =
      Inl (RequestError (HTTPError 404))"
    by (simp add: SensorList_get_data_def)
  then show ?thesis
    by (simp add: data_path_ex get_data_ex)
qed

text \<open>
  Claim C10. \<open>Sensor.get_data\<close> is \<open>SensorList.get_data\<close> on the one-element collection, a
  value or an error alike; its request names the one device and the one sensor.
\<close>

theorem sensor_get_data_singleton:
  "Sensor_get_data pd to_ms s from_date to_date =
     SensorList_get_data pd to_ms [s] from_date to_date \<and>
   data_path [s] = ''data/'' @ Device_id (sensor_device s) @ '':('' @ Sensor_id s @ ''))''"
  by (simp add: Sensor_get_data_def data_path_def query_def to_query_def)

end
